theory Spec2Isabelle
  imports Complex_Main "HOL-Library.Sublist"
begin

section \<open>Prediction service (app.py)\<close>

subsection \<open>Values\<close>

text \<open>
  A Python float is a finite number, an infinity or NaN. Finite doubles are read as the
  reals they denote; rounding is not modelled.
\<close>

datatype fl = Fin real | PInf | NInf | NaN

text \<open>The exceptions that the handlers can meet. \<open>LibError\<close> is whatever a library raises.\<close>

datatype exn = ValueError | TypeError | OverflowError | AttributeError | BadRequest
  | LibError string

text \<open>The object that \<open>request.get_json()\<close> returns.\<close>

datatype json = JNull | JBool bool | JInt int | JFloat fl | JStr string
  | JArr "json list" | JObj "(string \<times> json) list"

text \<open>
  The file at \<open>MODEL_PATH\<close>: absent, present but refused by \<open>joblib.load\<close>, or present
  and holding a pickled object (which may be Python's \<open>None\<close>).
\<close>

datatype 'm disk = Absent | Unreadable exn | Pickle "'m option"

text \<open>Response bodies, and the two error texts of \<open>predict\<close>.\<close>

datatype err_msg = ModelNotAvailable | StrOf exn

datatype body = Text string | Led int | Error err_msg | RootInfo bool

type_synonym response = "body \<times> nat"

text \<open>
  The library functions the service calls: the builtin \<open>float()\<close> on a JSON value and the
  \<open>predict\<close> method of the unpickled model on one row \<open>[ldr, motion]\<close>.
\<close>

record 'm lib =
  py_float :: "json \<Rightarrow> exn + fl"
  model_predict :: "'m \<Rightarrow> fl \<Rightarrow> fl \<Rightarrow> exn + fl"

text \<open>
  What a handler leaves behind: its response, the global \<open>model\<close> afterwards, and how many
  times it called \<open>load_model\<close>.
\<close>

record 'm step =
  reply :: response
  model_after :: "'m option"
  loads :: nat

subsection \<open>Builtins\<close>

text \<open>\<open>int(x)\<close> on a float: truncation toward zero; NaN and the infinities raise.\<close>

definition trunc :: "real \<Rightarrow> int" where
  "trunc r = (if 0 \<le> r then \<lfloor>r\<rfloor> else \<lceil>r\<rceil>)"

fun py_int :: "fl \<Rightarrow> exn + int" where
  "py_int (Fin r) = Inr (trunc r)"
| "py_int NaN = Inl ValueError"
| "py_int PInf = Inl OverflowError"
| "py_int NInf = Inl OverflowError"

text \<open>\<open>data.get(key, default)\<close>: only a dict has the method.\<close>

fun py_get :: "json \<Rightarrow> string \<Rightarrow> json \<Rightarrow> exn + json" where
  "py_get (JObj kvs) k d = Inr (case map_of kvs k of None \<Rightarrow> d | Some v \<Rightarrow> v)"
| "py_get _ k d = Inl AttributeError"

text \<open>\<open>max(0, min(255, n))\<close> of app.py, and \<open>np.clip(x, 0, 255)\<close> of train_model.py.\<close>

definition clamp :: "int \<Rightarrow> int" where
  "clamp n = max 0 (min 255 n)"

definition np_clip :: "real \<Rightarrow> real \<Rightarrow> real \<Rightarrow> real" where
  "np_clip x a_min a_max = min a_max (max a_min x)"

subsection \<open>Handlers\<close>

text \<open>\<open>load_model\<close>: the returned flag and the global \<open>model\<close> afterwards.\<close>

fun load_model :: "'m disk \<Rightarrow> 'm option \<Rightarrow> bool \<times> 'm option" where
  "load_model Absent model = (False, model)"
| "load_model (Unreadable e) model = (False, None)"
| "load_model (Pickle obj) model = (True, obj)"

definition path_exists :: "'m disk \<Rightarrow> bool" where
  "path_exists d = (d \<noteq> Absent)"

definition status :: "'m disk \<Rightarrow> 'm option \<Rightarrow> 'm step" where
  "status d model =
     (if path_exists d then
        (if model = None
         then \<lparr>reply = (Text ''ready'', 200), model_after = snd (load_model d model), loads = 1\<rparr>
         else \<lparr>reply = (Text ''ready'', 200), model_after = model, loads = 0\<rparr>)
      else \<lparr>reply = (Text ''not_ready'', 404), model_after = model, loads = 0\<rparr>)"

text \<open>The body of the \<open>try\<close> block of \<open>predict\<close>; \<open>Inl\<close> is the exception it raises.\<close>

definition predict_try :: "'m lib \<Rightarrow> 'm option \<Rightarrow> exn + json \<Rightarrow> exn + int" where
  "predict_try L model req =
     (case req of Inl e \<Rightarrow> Inl e | Inr data \<Rightarrow>
      (case py_get data ''ldr'' (JInt 0) of Inl e \<Rightarrow> Inl e | Inr a \<Rightarrow>
      (case py_float L a of Inl e \<Rightarrow> Inl e | Inr ldr \<Rightarrow>
      (case py_get data ''motion'' (JInt 0) of Inl e \<Rightarrow> Inl e | Inr b \<Rightarrow>
      (case py_float L b of Inl e \<Rightarrow> Inl e | Inr motion \<Rightarrow>
      (case model of None \<Rightarrow> Inl AttributeError | Some m \<Rightarrow>
      (case model_predict L m ldr motion of Inl e \<Rightarrow> Inl e | Inr pred \<Rightarrow>
      (case py_int pred of Inl e \<Rightarrow> Inl e | Inr n \<Rightarrow> Inr (clamp n)))))))))"

definition respond :: "exn + int \<Rightarrow> response" where
  "respond r = (case r of Inr pred \<Rightarrow> (Led pred, 200) | Inl e \<Rightarrow> (Error (StrOf e), 500))"

definition predict :: "'m lib \<Rightarrow> 'm disk \<Rightarrow> exn + json \<Rightarrow> 'm option \<Rightarrow> 'm step" where
  "predict L d req model =
     (if model = None then
        (case load_model d model of
           (False, model') \<Rightarrow>
             \<lparr>reply = (Error ModelNotAvailable, 404), model_after = model', loads = 1\<rparr>
         | (True, model') \<Rightarrow>
             \<lparr>reply = respond (predict_try L model' req), model_after = model', loads = 1\<rparr>)
      else \<lparr>reply = respond (predict_try L model req), model_after = model, loads = 0\<rparr>)"

definition root :: "'m option \<Rightarrow> 'm step" where
  "root model = \<lparr>reply = (RootInfo (model \<noteq> None), 200), model_after = model, loads = 0\<rparr>"

text \<open>
  A run of the service in which the requests do not overlap: each handler runs to its
  response before the next request is taken, and each request arrives with the state of
  the disk at that moment. The replies are collected in order and the calls of
  \<open>load_model\<close> are counted.
\<close>

datatype request = GetStatus | PostPredict "exn + json" | GetRoot

fun handle :: "'m lib \<Rightarrow> 'm disk \<Rightarrow> request \<Rightarrow> 'm option \<Rightarrow> 'm step" where
  "handle L d GetStatus model = status d model"
| "handle L d (PostPredict req) model = predict L d req model"
| "handle L d GetRoot model = root model"

fun serve :: "'m lib \<Rightarrow> 'm option \<Rightarrow> ('m disk \<times> request) list \<Rightarrow> response list \<times> 'm option \<times> nat" where
  "serve L model [] = ([], model, 0)"
| "serve L model ((d, rq) # rest) =
     (let s = handle L d rq model;
          (rs, model', n) = serve L (model_after s) rest
      in (reply s # rs, model', loads s + n))"

subsection \<open>Overlapping requests\<close>

text \<open>
  \<open>app.run\<close> serves each request in a thread of its own and app.py takes no lock, so
  the handlers interleave between their statements. A request in progress is at one of the
  points below: before the test of \<open>model is None\<close> (for \<open>status\<close>, with the test of the
  path), before the call of \<open>load_model\<close> that follows a test that saw \<open>None\<close>, before the
  \<open>try\<close> block, or finished with its response. A step runs one request up to its next
  point, with the disk as it is at that moment; \<open>load_model\<close> is one step.
\<close>

datatype pc = StatusTest | StatusLoad | PredictTest "exn + json" | PredictLoad "exn + json"
  | PredictTry "exn + json" | RootRead | Finished response

record 'm server =
  cached :: "'m option"
  threads :: "pc list"
  load_calls :: nat

datatype 'm action = Arrive request | Run nat "'m disk"

fun start :: "request \<Rightarrow> pc" where
  "start GetStatus = StatusTest"
| "start (PostPredict req) = PredictTest req"
| "start GetRoot = RootRead"

fun thread_step :: "'m lib \<Rightarrow> 'm disk \<Rightarrow> pc \<Rightarrow> 'm option \<Rightarrow> pc \<times> 'm option \<times> nat" where
  "thread_step L d StatusTest model =
     (if path_exists d then
        (if model = None then (StatusLoad, model, 0)
         else (Finished (Text ''ready'', 200), model, 0))
      else (Finished (Text ''not_ready'', 404), model, 0))"
| "thread_step L d StatusLoad model =
     (Finished (Text ''ready'', 200), snd (load_model d model), 1)"
| "thread_step L d (PredictTest req) model =
     (if model = None then (PredictLoad req, model, 0) else (PredictTry req, model, 0))"
| "thread_step L d (PredictLoad req) model =
     (case load_model d model of
        (False, model') \<Rightarrow> (Finished (Error ModelNotAvailable, 404), model', 1)
      | (True, model') \<Rightarrow> (PredictTry req, model', 1))"
| "thread_step L d (PredictTry req) model =
     (Finished (respond (predict_try L model req)), model, 0)"
| "thread_step L d RootRead model = (Finished (RootInfo (model \<noteq> None), 200), model, 0)"
| "thread_step L d (Finished r) model = (Finished r, model, 0)"

text \<open>
  The server: the global \<open>model\<close>, the requests in progress and the number of calls of
  \<open>load_model\<close> so far. A request arrives, or request number i takes its next step.
\<close>

fun act :: "'m lib \<Rightarrow> 'm action \<Rightarrow> 'm server \<Rightarrow> 'm server" where
  "act L (Arrive rq) s = s\<lparr>threads := threads s @ [start rq]\<rparr>"
| "act L (Run i d) s =
     (if i < length (threads s) then
        (case thread_step L d (threads s ! i) (cached s) of
           (pc', model', n) \<Rightarrow>
             s\<lparr>cached := model', threads := (threads s)[i := pc'],
               load_calls := load_calls s + n\<rparr>)
      else s)"

definition interleave :: "'m lib \<Rightarrow> 'm action list \<Rightarrow> 'm server \<Rightarrow> 'm server" where
  "interleave L sched s = fold (act L) sched s"

text \<open>A request that saw \<open>model is None\<close> and has not called \<open>load_model\<close> yet.\<close>

fun about_to_load :: "pc \<Rightarrow> bool" where
  "about_to_load StatusLoad = True"
| "about_to_load (PredictLoad req) = True"
| "about_to_load _ = False"

definition settled :: "'m server \<Rightarrow> bool" where
  "settled s = list_all (\<lambda>p. \<not> about_to_load p) (threads s)"

text \<open>One request served with no other in between, from its arrival to its response.\<close>

definition alone :: "'m lib \<Rightarrow> 'm disk \<Rightarrow> request \<Rightarrow> 'm option \<Rightarrow> 'm server" where
  "alone L d rq model =
     interleave L [Arrive rq, Run 0 d, Run 0 d, Run 0 d]
       \<lparr>cached = model, threads = [], load_calls = 0\<rparr>"

section \<open>Training pipeline (train_model.py)\<close>

subsection \<open>Data\<close>

text \<open>
  A cell of the table that \<open>pd.read_csv\<close> returns is missing, a number or some other
  text. A frame is its columns in order, each a name and its cells; all columns have one
  length, the number of rows. Doubles are read as reals, so a frame of numbers holds
  finite values only (\<open>NaN\<close> is the missing cell).
\<close>

datatype cell = NA | Num real | Str string

type_synonym frame = "(string \<times> cell list) list"

datatype read_result = FileNotFoundError | OtherReadError exn | Table frame

text \<open>A row of the three required columns, once numeric.\<close>

record sample =
  ldr :: real
  motion :: real
  led :: real

text \<open>The numbers the evaluation stage prints.\<close>

record scores =
  train_mae :: real
  test_mae :: real
  train_r2 :: real
  test_r2 :: real
  importances :: "real \<times> real"

text \<open>
  The library calls of the script, as parameters: the CSV reader's result, the parser
  behind \<open>pd.to_numeric\<close>, \<open>Series.quantile\<close>, \<open>train_test_split\<close> with its fixed seed,
  the forest's \<open>fit\<close> and \<open>predict\<close>, the two metrics, the feature importances, and
  whether \<open>joblib.dump\<close> writes the file (\<open>False\<close>: it raises).
\<close>

record 'm env =
  read_csv :: read_result
  parse_numeric :: "string \<Rightarrow> real option"
  quantile :: "real list \<Rightarrow> real \<Rightarrow> real"
  train_test_split :: "sample list \<Rightarrow> sample list \<times> sample list"
  fit :: "sample list \<Rightarrow> 'm"
  rf_predict :: "'m \<Rightarrow> real \<Rightarrow> real \<Rightarrow> real"
  mean_absolute_error :: "real list \<Rightarrow> real list \<Rightarrow> real"
  r2_score :: "real list \<Rightarrow> real list \<Rightarrow> real"
  feature_importances :: "'m \<Rightarrow> real \<times> real"
  joblib_dump :: "'m \<Rightarrow> bool"

text \<open>
  How a run ends: \<open>sys.exit(1)\<close> after a diagnostic, an exception nobody catches, or the
  last line of the script. The trace lists the stages with an effect that the run went
  through; \<open>artifact\<close> is what the run wrote to \<open>led_predictor.pkl\<close>.
\<close>

datatype diag = CsvNotFound | CsvLoadError exn | MissingColumns "string list"
  | TooFewSamples nat | SaveError

datatype outcome = Exit1 diag | Crashed exn | Ready

datatype event = ReadCsv | Split | Fit | Evaluate | Dump

record 'm run =
  outcome :: outcome
  trace :: "event list"
  artifact :: "'m option"
  report :: "scores option"

subsection \<open>Cleaning\<close>

definition columns :: "frame \<Rightarrow> string list" where
  "columns df = map fst df"

definition drop_ts :: "frame \<Rightarrow> frame" where
  "drop_ts df =
     (if ''ts'' \<in> set (columns df) \<or> ''Unnamed: 0'' \<in> set (columns df)
      then filter (\<lambda>c. fst c \<notin> set [col \<leftarrow> [''ts'', ''Unnamed: 0'']. col \<in> set (columns df)]) df
      else df)"

definition required_cols :: "string list" where
  "required_cols = [''ldr'', ''motion'', ''led'']"

definition missing_cols :: "frame \<Rightarrow> string list" where
  "missing_cols df = [col \<leftarrow> required_cols. col \<notin> set (columns df)]"

fun zip3 :: "'a list \<Rightarrow> 'b list \<Rightarrow> 'c list \<Rightarrow> ('a \<times> 'b \<times> 'c) list" where
  "zip3 as bs cs = zip as (zip bs cs)"

text \<open>\<open>df[required_cols]\<close>, as rows; a column that is not there is a \<open>KeyError\<close>.\<close>

definition select_required :: "frame \<Rightarrow> exn + (cell \<times> cell \<times> cell) list" where
  "select_required df =
     (case (map_of df ''ldr'', map_of df ''motion'', map_of df ''led'') of
        (Some a, Some b, Some c) \<Rightarrow> Inr (zip3 a b c)
      | _ \<Rightarrow> Inl (LibError ''KeyError''))"

definition isnull_sum :: "(cell \<times> cell \<times> cell) list \<Rightarrow> nat" where
  "isnull_sum rows =
     length [r \<leftarrow> rows. fst r = NA] + length [r \<leftarrow> rows. fst (snd r) = NA]
       + length [r \<leftarrow> rows. snd (snd r) = NA]"

definition dropna_cells :: "(cell \<times> cell \<times> cell) list \<Rightarrow> (cell \<times> cell \<times> cell) list" where
  "dropna_cells rows = [r \<leftarrow> rows. fst r \<noteq> NA \<and> fst (snd r) \<noteq> NA \<and> snd (snd r) \<noteq> NA]"

text \<open>\<open>pd.to_numeric(..., errors='coerce')\<close> on one cell; \<open>None\<close> is \<open>NaN\<close>.\<close>

fun to_numeric :: "(string \<Rightarrow> real option) \<Rightarrow> cell \<Rightarrow> real option" where
  "to_numeric parse NA = None"
| "to_numeric parse (Num r) = Some r"
| "to_numeric parse (Str s) = parse s"

text \<open>The second \<open>dropna\<close>: the rows whose three cells are numbers.\<close>

fun dropna :: "(real option \<times> real option \<times> real option) list \<Rightarrow> sample list" where
  "dropna [] = []"
| "dropna ((Some a, Some b, Some c) # rows) = \<lparr>ldr = a, motion = b, led = c\<rparr> # dropna rows"
| "dropna (_ # rows) = dropna rows"

text \<open>\<open>drop_duplicates\<close> keeps the first of equal rows.\<close>

fun keep_first :: "'a list \<Rightarrow> 'a list \<Rightarrow> 'a list" where
  "keep_first seen [] = []"
| "keep_first seen (x # xs) =
     (if x \<in> set seen then keep_first seen xs else x # keep_first (x # seen) xs)"

definition duplicated_sum :: "'a list \<Rightarrow> nat" where
  "duplicated_sum rows = length rows - length (keep_first [] rows)"

definition drop_duplicates :: "'a list \<Rightarrow> 'a list" where
  "drop_duplicates rows = keep_first [] rows"

definition clean :: "(string \<Rightarrow> real option) \<Rightarrow> (cell \<times> cell \<times> cell) list \<Rightarrow> sample list" where
  "clean parse rows =
     (let df1 = (if isnull_sum rows > 0 then dropna_cells rows else rows);
          df2 = map (\<lambda>(a, b, c). (to_numeric parse a, to_numeric parse b, to_numeric parse c)) df1;
          df3 = dropna df2
      in if duplicated_sum df3 > 0 then drop_duplicates df3 else df3)"

subsection \<open>Validation and outliers\<close>

definition validate :: "sample list \<Rightarrow> sample list" where
  "validate df =
     (let df1 = [r \<leftarrow> df. ldr r \<ge> 0 \<and> ldr r \<le> 4095];
          df2 = [r \<leftarrow> df1. motion r \<in> set [0, 1]]
      in [r \<leftarrow> df2. led r \<ge> 0 \<and> led r \<le> 255])"

text \<open>
  The outlier stage computes in doubles. A double is read as the real it denotes, and an
  operation gives the exact result rounded to the nearest double, ties to the even
  significand: 53 bits in the binade of the result, multiples of \<open>2 powi (- 1074)\<close> below the
  normal range. Overflow to infinity is not modelled: the labels are in [0, 255] and a row
  count is far below \<open>2 ^ 1024\<close>.
\<close>

definition round_half_even :: "real \<Rightarrow> int" where
  "round_half_even y =
     (let f = \<lfloor>y\<rfloor>; d = y - of_int f
      in if d < 1/2 then f else if d > 1/2 then f + 1 else if even f then f else f + 1)"

definition quantum :: "real \<Rightarrow> int" where
  "quantum x = max (\<lfloor>log 2 \<bar>x\<bar>\<rfloor> - 52) (- 1074)"

definition fl_round :: "real \<Rightarrow> real" where
  "fl_round x =
     (if x = 0 then 0
      else of_int (round_half_even (x / 2 powi quantum x)) * 2 powi quantum x)"

definition fl_add :: "real \<Rightarrow> real \<Rightarrow> real" where
  "fl_add x y = fl_round (x + y)"

definition fl_sub :: "real \<Rightarrow> real \<Rightarrow> real" where
  "fl_sub x y = fl_round (x - y)"

definition fl_mul :: "real \<Rightarrow> real \<Rightarrow> real" where
  "fl_mul x y = fl_round (x * y)"

text \<open>
  Section 5 of the script. The quartiles are doubles that pandas returns; \<open>0.25\<close>, \<open>0.75\<close>
  and \<open>1.5\<close> are doubles as written, \<open>0.1\<close> is the double nearest to it, and \<open>len(df)\<close> is
  converted to a double before the product. The comparisons are exact.
\<close>

definition outlier_stage :: "(real list \<Rightarrow> real \<Rightarrow> real) \<Rightarrow> sample list \<Rightarrow> sample list" where
  "outlier_stage q df =
     (let Q1 = q (map led df) 0.25;
          Q3 = q (map led df) 0.75;
          IQR = fl_sub Q3 Q1;
          low = fl_sub Q1 (fl_mul 1.5 IQR);
          high = fl_add Q3 (fl_mul 1.5 IQR);
          outliers = [r \<leftarrow> df. led r < low \<or> led r > high]
      in if length outliers > 0
            \<and> real (length outliers) < fl_mul (fl_round (real (length df))) (fl_round 0.1)
         then [r \<leftarrow> df. led r \<ge> low \<and> led r \<le> high]
         else df)"

subsection \<open>Split, fit, evaluation, save\<close>

definition evaluate :: "'m env \<Rightarrow> 'm \<Rightarrow> sample list \<Rightarrow> sample list \<Rightarrow> scores" where
  "evaluate e model train test =
     (let y_pred_train = map (\<lambda>r. np_clip (rf_predict e model (ldr r) (motion r)) 0 255) train;
          y_pred_test = map (\<lambda>r. np_clip (rf_predict e model (ldr r) (motion r)) 0 255) test
      in \<lparr>train_mae = mean_absolute_error e (map led train) y_pred_train,
          test_mae = mean_absolute_error e (map led test) y_pred_test,
          train_r2 = r2_score e (map led train) y_pred_train,
          test_r2 = r2_score e (map led test) y_pred_test,
          importances = feature_importances e model\<rparr>)"

text \<open>Sections 7 to 10 of the script.\<close>

definition train_and_save :: "'m env \<Rightarrow> sample list \<Rightarrow> 'm run" where
  "train_and_save e df =
     (let (train, test) = train_test_split e df;
          model = fit e train;
          sc = evaluate e model train test
      in if joblib_dump e model
         then \<lparr>outcome = Ready, trace = [ReadCsv, Split, Fit, Evaluate, Dump],
               artifact = Some model, report = Some sc\<rparr>
         else \<lparr>outcome = Exit1 SaveError, trace = [ReadCsv, Split, Fit, Evaluate, Dump],
               artifact = None, report = Some sc\<rparr>)"

text \<open>From the sample count check of section 4 on.\<close>

definition after_validation :: "'m env \<Rightarrow> sample list \<Rightarrow> 'm run" where
  "after_validation e df =
     (if length df < 50
      then \<lparr>outcome = Exit1 (TooFewSamples (length df)), trace = [ReadCsv],
            artifact = None, report = None\<rparr>
      else train_and_save e (outlier_stage (quantile e) df))"

definition halt :: "outcome \<Rightarrow> 'm run" where
  "halt out = \<lparr>outcome = out, trace = [ReadCsv], artifact = None, report = None\<rparr>"

definition pipeline :: "'m env \<Rightarrow> 'm run" where
  "pipeline e =
     (case read_csv e of
        FileNotFoundError \<Rightarrow> halt (Exit1 CsvNotFound)
      | OtherReadError x \<Rightarrow> halt (Exit1 (CsvLoadError x))
      | Table df0 \<Rightarrow>
          (let df = drop_ts df0 in
           if missing_cols df \<noteq> [] then halt (Exit1 (MissingColumns (missing_cols df)))
           else (case select_required df of
                   Inl x \<Rightarrow> halt (Crashed x)
                 | Inr rows \<Rightarrow> after_validation e (validate (clean (parse_numeric e) rows)))))"

section \<open>The specification's words\<close>

text \<open>
  The training sample of the specification's data model: \<open>ldr\<close> in [0, 4095], \<open>motion\<close>
  exactly 0 or 1, \<open>led\<close> in [0, 255].
\<close>

definition training_sample :: "sample \<Rightarrow> bool" where
  "training_sample r \<longleftrightarrow>
     0 \<le> ldr r \<and> ldr r \<le> 4095 \<and> (motion r = 0 \<or> motion r = 1) \<and> 0 \<le> led r \<and> led r \<le> 255"

text \<open>
  The candidate outliers of the specification: the rows whose label lies strictly outside
  [Q1 - 1.5 IQR, Q3 + 1.5 IQR], with IQR = Q3 - Q1, the three computed in doubles.
\<close>

definition outliers_of :: "(real list \<Rightarrow> real \<Rightarrow> real) \<Rightarrow> sample list \<Rightarrow> sample list" where
  "outliers_of q df =
     (let Q1 = q (map led df) (1/4); Q3 = q (map led df) (3/4); IQR = fl_sub Q3 Q1
      in [r \<leftarrow> df. led r < fl_sub Q1 (fl_mul (3/2) IQR)
                    \<or> fl_add Q3 (fl_mul (3/2) IQR) < led r])"

text \<open>The frame after the validation stage, for a table that passed the schema guard.\<close>

definition validated :: "'m env \<Rightarrow> frame \<Rightarrow> sample list" where
  "validated e df0 =
     (case select_required (drop_ts df0) of
        Inr rows \<Rightarrow> validate (clean (parse_numeric e) rows)
      | Inl x \<Rightarrow> [])"

text \<open>A run without what the evaluation stage printed.\<close>

definition without_evaluation :: "'m run \<Rightarrow> outcome \<times> event list \<times> 'm option" where
  "without_evaluation r = (outcome r, trace r, artifact r)"

section \<open>Instances for the examples\<close>

text \<open>
  \<open>float()\<close> on the JSON values of the examples: numbers and booleans convert, \<open>None\<close> and
  containers are a \<open>TypeError\<close>, and the texts used spell no number.
\<close>

fun float_of_json :: "json \<Rightarrow> exn + fl" where
  "float_of_json (JInt i) = Inr (Fin (real_of_int i))"
| "float_of_json (JFloat x) = Inr x"
| "float_of_json (JBool b) = Inr (Fin (if b then 1 else 0))"
| "float_of_json (JStr s) = Inl ValueError"
| "float_of_json _ = Inl TypeError"

text \<open>A model is a number here, and predicts it whatever the features are.\<close>

definition example_lib :: "real lib" where
  "example_lib = \<lparr>py_float = float_of_json, model_predict = (\<lambda>m x y. Inr (Fin m))\<rparr>"

definition example_body :: "exn + json" where
  "example_body = Inr (JObj [(''ldr'', JInt 100), (''motion'', JInt 0)])"

definition example_frame :: "sample list" where
  "example_frame =
     [\<lparr>ldr = 100, motion = 1, led = 200\<rparr>,
      \<lparr>ldr = 5000, motion = 0, led = 10\<rparr>,
      \<lparr>ldr = 300, motion = 0.5, led = 10\<rparr>,
      \<lparr>ldr = 300, motion = 0, led = 300\<rparr>,
      \<lparr>ldr = - 1, motion = 1, led = 255\<rparr>,
      \<lparr>ldr = 4095, motion = 0, led = 0\<rparr>]"

text \<open>
  The default of \<open>Series.quantile\<close>: linear interpolation between the two order statistics
  around position \<open>(n - 1) q\<close>, for a column with a value in it (on an empty column,
  where pandas gives \<open>NaN\<close>, this is 0).
\<close>

definition quantile_linear :: "real list \<Rightarrow> real \<Rightarrow> real" where
  "quantile_linear xs q =
     (if xs = [] then 0
      else let s = sort xs;
               h = real (length s - 1) * q;
               i = nat \<lfloor>h\<rfloor>;
               j = min (i + 1) (length s - 1)
           in s ! i + (h - real i) * (s ! j - s ! i))"

definition mean :: "real list \<Rightarrow> real" where
  "mean xs = sum_list xs / real (length xs)"

text \<open>
  An environment for the examples: the given CSV, no text that parses as a number, a split
  that takes the first fifth as test set, a model that is the mean label of its training
  set, and a disk that is writable or not.
\<close>

definition example_env :: "read_result \<Rightarrow> bool \<Rightarrow> real env" where
  "example_env csv writable =
     \<lparr>read_csv = csv,
      parse_numeric = (\<lambda>s. None),
      quantile = quantile_linear,
      train_test_split = (\<lambda>df. (drop (length df div 5) df, take (length df div 5) df)),
      fit = (\<lambda>train. mean (map led train)),
      rf_predict = (\<lambda>m x y. m),
      mean_absolute_error = (\<lambda>ys ps. mean (map (\<lambda>(y, p). \<bar>y - p\<bar>) (zip ys ps))),
      r2_score = (\<lambda>ys ps. 1 - sum_list (map (\<lambda>(y, p). (y - p)\<^sup>2) (zip ys ps))
                              / sum_list (map (\<lambda>y. (y - mean ys)\<^sup>2) ys)),
      feature_importances = (\<lambda>m. (1, 0)),
      joblib_dump = (\<lambda>m. writable)\<rparr>"

text \<open>The exported table that holds the given samples, one per timestamp.\<close>

definition table_of :: "sample list \<Rightarrow> frame" where
  "table_of rs =
     [(''ts'', map (\<lambda>r. Str ''2025-01-01 00:00:00'') rs),
      (''ldr'', map (\<lambda>r. Num (ldr r)) rs),
      (''motion'', map (\<lambda>r. Num (motion r)) rs),
      (''led'', map (\<lambda>r. Num (led r)) rs)]"

text \<open>n different samples, valid as long as n is at most 256.\<close>

definition ramp :: "nat \<Rightarrow> sample list" where
  "ramp n = map (\<lambda>i. \<lparr>ldr = 10 * real i, motion = 0, led = real i\<rparr>) [0..<n]"

definition labelled :: "real list \<Rightarrow> sample list" where
  "labelled xs = map (\<lambda>x. \<lparr>ldr = 100, motion = 0, led = x\<rparr>) xs"

text \<open>
  The double that \<open>0.6\<close> denotes, the double just below 0.9, and a frame of 53 rows on
  which the rounding decides: the computed upper bound is 1.5, the largest label, where
  the exact sum is below it.
\<close>

definition six_tenths :: real where
  "six_tenths = 5404319552844595 / 9007199254740992"

definition below_nine_tenths :: real where
  "below_nine_tenths = 8106479329266892 / 9007199254740992"

definition skewed :: "sample list" where
  "skewed = labelled (replicate 14 0 @ replicate 38 six_tenths @ [3/2])"

text \<open>
  Two predictions arrive while nothing is cached; both test \<open>model is None\<close> before the
  second one loads the artifact.
\<close>

definition idle :: "real server" where
  "idle = \<lparr>cached = None, threads = [], load_calls = 0\<rparr>"

definition race_prefix :: "real action list" where
  "race_prefix =
     [Arrive (PostPredict example_body), Arrive (PostPredict example_body),
      Run 0 (Pickle (Some 10)), Run 1 (Pickle (Some 10)), Run 1 (Pickle (Some 10))]"

text \<open>A server with a model cached and no request in progress, and what then happens.\<close>

definition loaded_server :: "real server" where
  "loaded_server = \<lparr>cached = Some 10, threads = [], load_calls = 1\<rparr>"

definition busy_hour :: "real action list" where
  "busy_hour =
     [Arrive (PostPredict example_body), Arrive GetStatus, Run 0 (Pickle (Some 99)),
      Arrive (PostPredict example_body), Run 1 Absent, Run 2 (Unreadable ValueError),
      Run 0 (Pickle (Some 99)), Run 2 (Pickle (Some 99))]"

section \<open>The prediction service\<close>

subsection \<open>Helper lemmas\<close>












lemma predict_loaded:
  "predict L d req (Some m) =
     \<lparr>reply = respond (predict_try L (Some m) req), model_after = Some m, loads = 0\<rparr>"
  by (simp add: predict_def)

lemma predict_first_load:
  "predict L (Pickle obj) req None =
     \<lparr>reply = respond (predict_try L obj req), model_after = obj, loads = 1\<rparr>"
  by (simp add: predict_def)

lemma handle_loaded:
  "model_after (handle L d rq (Some m)) = Some m \<and> loads (handle L d rq (Some m)) = 0"
  by (cases rq) (simp_all add: status_def predict_def root_def)

lemma trunc_toward_zero:
  "\<bar>real_of_int (trunc r)\<bar> \<le> \<bar>r\<bar> \<and> \<bar>r - real_of_int (trunc r)\<bar> < 1"
  unfolding trunc_def by (auto; linarith)

lemma predict_try_value:
  assumes "py_float L (case map_of kvs ''ldr'' of None \<Rightarrow> JInt 0 | Some v \<Rightarrow> v) = Inr x"
    and "py_float L (case map_of kvs ''motion'' of None \<Rightarrow> JInt 0 | Some v \<Rightarrow> v) = Inr y"
    and "model_predict L m x y = Inr (Fin p)"
  shows "predict_try L (Some m) (Inr (JObj kvs)) = Inr (max 0 (min 255 (trunc p)))"
  using assms by (simp add: predict_try_def clamp_def)

subsection \<open>Claims\<close>

text \<open>
  C4. \<open>GET /status\<close> is claimed to answer 404 "not_ready" when the artifact exists but
  cannot be deserialized. The handler calls \<open>load_model\<close> and drops its result: with a
  file that \<open>joblib.load\<close> refuses and no model cached it answers 200 "ready", the global
  stays \<open>None\<close>, and \<open>predict\<close> in the same state answers 404.
\<close>

theorem status_ready_when_load_fails:
  "status (Unreadable (LibError ''UnpicklingError'')) (None :: real option)
     = \<lparr>reply = (Text ''ready'', 200), model_after = None, loads = 1\<rparr>
   \<and> reply (predict example_lib (Unreadable (LibError ''UnpicklingError'')) example_body None)
     = (Error ModelNotAvailable, 404)"
  by (simp add: status_def path_exists_def predict_def)



text \<open>
  C6. Both clamps, \<open>max(0, min(255, n))\<close> of the service and \<open>np.clip(x, 0, 255)\<close> of the
  evaluation stage, give a result in [0, 255], leave a value of [0, 255] as it is, and are
  monotonic.
\<close>

theorem clamp_properties:
  "(0 \<le> clamp n \<and> clamp n \<le> 255)
   \<and> (0 \<le> n \<and> n \<le> 255 \<longrightarrow> clamp n = n)
   \<and> (n \<le> k \<longrightarrow> clamp n \<le> clamp k)
   \<and> (0 \<le> np_clip x 0 255 \<and> np_clip x 0 255 \<le> 255)
   \<and> (0 \<le> x \<and> x \<le> 255 \<longrightarrow> np_clip x 0 255 = x)
   \<and> (x \<le> y \<longrightarrow> np_clip x 0 255 \<le> np_clip y 0 255)"
  by (auto simp: clamp_def np_clip_def)

theorem clamp_properties_witness:
  "clamp 17 = 17 \<and> clamp 17 \<le> clamp 300 \<and> clamp 300 \<le> 255
   \<and> np_clip 3.5 0 255 = 3.5 \<and> np_clip (- 3) 0 255 \<le> np_clip 3.5 0 255 \<and> 0 \<le> np_clip (- 3) 0 255"
  using clamp_properties[of 17 300 "3.5" "3.5"] clamp_properties[of 300 300 "- 3" "3.5"]
  by simp

text \<open>
  C9. With a model in memory (cached, or loaded by this request), features that convert
  and a finite raw prediction p, \<open>POST /predict\<close> answers 200 with
  \<open>led = max(0, min(255, trunc p))\<close>, where \<open>trunc p\<close> is p cut toward zero: the integer
  no larger in magnitude than p and less than 1 away from it. So 200.9 gives 200.
\<close>

theorem predict_truncates:
  assumes "py_float L (case map_of kvs ''ldr'' of None \<Rightarrow> JInt 0 | Some v \<Rightarrow> v) = Inr x"
    and "py_float L (case map_of kvs ''motion'' of None \<Rightarrow> JInt 0 | Some v \<Rightarrow> v) = Inr y"
    and "model_predict L m x y = Inr (Fin p)"
  shows "reply (predict L d (Inr (JObj kvs)) (Some m)) = (Led (max 0 (min 255 (trunc p))), 200)
    \<and> reply (predict L (Pickle (Some m)) (Inr (JObj kvs)) None)
        = (Led (max 0 (min 255 (trunc p))), 200)
    \<and> \<bar>real_of_int (trunc p)\<bar> \<le> \<bar>p\<bar> \<and> \<bar>p - real_of_int (trunc p)\<bar> < 1"
  using predict_try_value[OF assms] trunc_toward_zero[of p]
  by (simp add: predict_loaded predict_first_load respond_def)

theorem predict_truncates_witness:
  "reply (predict example_lib Absent example_body (Some 200.9)) = (Led 200, 200)
   \<and> reply (predict example_lib (Pickle (Some 255.9)) example_body None) = (Led 255, 200)"
proof -
  have f: "py_float example_lib (case map_of [(''ldr'', JInt 100), (''motion'', JInt 0)] ''ldr''
             of None \<Rightarrow> JInt 0 | Some v \<Rightarrow> v) = Inr (Fin 100)"
    "py_float example_lib (case map_of [(''ldr'', JInt 100), (''motion'', JInt 0)] ''motion''
             of None \<Rightarrow> JInt 0 | Some v \<Rightarrow> v) = Inr (Fin 0)"
    by (simp_all add: example_lib_def)
  have p: "model_predict example_lib 200.9 (Fin 100) (Fin 0) = Inr (Fin 200.9)"
    "model_predict example_lib 255.9 (Fin 100) (Fin 0) = Inr (Fin 255.9)"
    by (simp_all add: example_lib_def)
  have t: "trunc 200.9 = 200" "trunc 255.9 = 255"
    by (simp_all add: trunc_def)
  show ?thesis
    using predict_truncates[OF f p(1), of Absent] predict_truncates[OF f p(2), of Absent]
    by (simp add: example_body_def t)
qed

text \<open>
  The steps of a request served alone add up to its handler, so \<open>serve\<close> is the run of the
  server in which no two requests overlap.
\<close>

lemma alone_is_handle:
  "alone L d rq model =
     \<lparr>cached = model_after (handle L d rq model),
      threads = [Finished (reply (handle L d rq model))],
      load_calls = loads (handle L d rq model)\<rparr>"
proof (cases rq)
  case GetStatus
  then show ?thesis
    by (cases d) (simp_all add: alone_def interleave_def status_def path_exists_def)
next
  case (PostPredict req)
  then show ?thesis
    by (cases d; cases model) (simp_all add: alone_def interleave_def predict_def)
next
  case GetRoot
  then show ?thesis
    by (simp add: alone_def interleave_def root_def)
qed

lemma serve_loaded:
  "serve L (Some m) reqs = (map (\<lambda>(d, rq). reply (handle L d rq (Some m))) reqs, Some m, 0)"
  by (induction reqs) (auto simp: handle_loaded Let_def)

lemma thread_step_loaded:
  assumes "\<not> about_to_load p"
  shows "snd (thread_step L d p (Some m)) = (Some m, 0)
       \<and> \<not> about_to_load (fst (thread_step L d p (Some m)))"
  using assms by (cases p) simp_all

lemma start_not_loading: "\<not> about_to_load (start rq)"
  by (cases rq) simp_all

lemma act_loaded:
  assumes "cached s = Some m" "settled s"
  shows "cached (act L a s) = Some m \<and> settled (act L a s)
       \<and> load_calls (act L a s) = load_calls s"
proof (cases a)
  case (Arrive rq)
  with assms show ?thesis by (simp add: settled_def start_not_loading)
next
  case (Run i d)
  show ?thesis
  proof (cases "i < length (threads s)")
    case False
    with Run assms show ?thesis by simp
  next
    case True
    with assms(2) have n: "\<not> about_to_load (threads s ! i)"
      by (simp add: settled_def list_all_length)
    obtain p' where t: "thread_step L d (threads s ! i) (Some m) = (p', Some m, 0)"
      and p': "\<not> about_to_load p'"
      using thread_step_loaded[OF n, of L d m]
      by (cases "thread_step L d (threads s ! i) (Some m)") auto
    have "list_all (\<lambda>p. \<not> about_to_load p) ((threads s)[i := p'])"
      using assms(2) p' set_update_subset_insert[of "threads s" i p']
      unfolding settled_def list_all_iff by auto
    with Run True assms t show ?thesis by (simp add: settled_def)
  qed
qed

lemma interleave_loaded:
  "cached s = Some m \<Longrightarrow> settled s \<Longrightarrow>
   cached (interleave L sched s) = Some m \<and> settled (interleave L sched s)
     \<and> load_calls (interleave L sched s) = load_calls s"
  unfolding interleave_def
proof (induction sched arbitrary: s)
  case Nil
  then show ?case by simp
next
  case (Cons a sched)
  from act_loaded[OF Cons.prems, of L a] Cons.IH[of "act L a s"] show ?case by simp
qed

text \<open>
  C10, as stated, fails when requests overlap. Two predictions test \<open>model is None\<close>
  while nothing is cached; the second loads the artifact, and the variable holds model 10,
  with one call of \<open>load_model\<close> made and the first request still before its own. That
  request then calls \<open>load_model\<close> all the same, a second call after the variable was set:
  if the artifact was rewritten meanwhile, the cached object is replaced by model 99 and
  both predictions are computed with it; if the file is unreadable by then, the variable
  is \<open>None\<close> again.
\<close>

theorem loaded_not_absorbing_under_overlap:
  "interleave example_lib race_prefix idle
     = \<lparr>cached = Some 10, threads = [PredictLoad example_body, PredictTry example_body],
        load_calls = 1\<rparr>
   \<and> interleave example_lib (race_prefix @ [Run 0 (Pickle (Some 99)), Run 0 Absent, Run 1 Absent])
       idle
     = \<lparr>cached = Some 99, threads = [Finished (Led 99, 200), Finished (Led 99, 200)],
        load_calls = 2\<rparr>
   \<and> interleave example_lib (race_prefix @ [Run 0 (Unreadable ValueError)]) idle
     = \<lparr>cached = None,
        threads = [Finished (Error ModelNotAvailable, 404), PredictTry example_body],
        load_calls = 2\<rparr>"
  by (simp add: interleave_def race_prefix_def idle_def respond_def predict_try_def
      example_lib_def example_body_def trunc_def clamp_def)

text \<open>
  C10, amended. Once the global \<open>model\<close> holds an object and no request that saw it as
  \<open>None\<close> has its call of \<open>load_model\<close> still to run, no request calls \<open>load_model\<close> again
  and the global keeps that object: in every interleaving of the handlers' steps, with
  requests arriving at any time and the disk changing at will, the number of calls stays
  the same, the state stays of that kind, and a prediction computed afterwards is
  computed with that object. In particular this holds for requests served one after the
  other, whatever the disk holds when each arrives.
\<close>

theorem loaded_is_absorbing_when_settled:
  assumes "cached s = Some m" and "settled s"
  shows "cached (interleave L sched s) = Some m
    \<and> load_calls (interleave L sched s) = load_calls s
    \<and> settled (interleave L sched s)
    \<and> thread_step L d (PredictTry req) (cached (interleave L sched s))
        = (Finished (respond (predict_try L (Some m) req)), Some m, 0)
    \<and> serve L (Some m) reqs = (map (\<lambda>(d, rq). reply (handle L d rq (Some m))) reqs, Some m, 0)
    \<and> loads (status d (Some m)) = 0 \<and> model_after (status d (Some m)) = Some m
    \<and> predict L d req (Some m)
        = \<lparr>reply = respond (predict_try L (Some m) req), model_after = Some m, loads = 0\<rparr>"
proof -
  note i = interleave_loaded[OF assms, of L sched]
  have "thread_step L d (PredictTry req) (cached (interleave L sched s))
        = (Finished (respond (predict_try L (Some m) req)), Some m, 0)"
    using i by simp
  moreover have "loads (status d (Some m)) = 0" "model_after (status d (Some m)) = Some m"
    using handle_loaded[of L d GetStatus m] by simp_all
  ultimately show ?thesis
    using i serve_loaded[of L m reqs] predict_loaded[of L d req m] by blast
qed

theorem loaded_is_absorbing_when_settled_witness:
  "cached loaded_server = Some 10 \<and> settled loaded_server
   \<and> interleave example_lib busy_hour loaded_server
     = \<lparr>cached = Some 10,
        threads = [Finished (Led 10, 200), Finished (Text ''not_ready'', 404),
                   Finished (Led 10, 200)],
        load_calls = 1\<rparr>
   \<and> serve example_lib (Some 10)
        [(Pickle (Some 99), PostPredict example_body), (Absent, GetStatus),
         (Unreadable ValueError, PostPredict example_body), (Pickle (Some 99), GetStatus)]
     = ([(Led 10, 200), (Text ''not_ready'', 404), (Led 10, 200), (Text ''ready'', 200)],
        Some 10, 0)"
proof -
  have c: "cached loaded_server = Some 10" and s: "settled loaded_server"
    by (simp_all add: loaded_server_def settled_def)
  have r: "interleave example_lib busy_hour loaded_server
     = \<lparr>cached = cached (interleave example_lib busy_hour loaded_server),
        threads = [Finished (Led 10, 200), Finished (Text ''not_ready'', 404),
                   Finished (Led 10, 200)],
        load_calls = load_calls (interleave example_lib busy_hour loaded_server)\<rparr>"
    by (simp add: interleave_def busy_hour_def loaded_server_def path_exists_def respond_def
        predict_try_def example_lib_def example_body_def trunc_def clamp_def)
  have h: "map (\<lambda>(d, rq). reply (handle example_lib d rq (Some 10)))
        [(Pickle (Some 99), PostPredict example_body), (Absent, GetStatus),
         (Unreadable ValueError, PostPredict example_body), (Pickle (Some 99), GetStatus)]
     = [(Led 10, 200), (Text ''not_ready'', 404), (Led 10, 200), (Text ''ready'', 200)]"
    by (simp add: predict_def status_def path_exists_def respond_def predict_try_def
        example_lib_def example_body_def trunc_def clamp_def)
  from loaded_is_absorbing_when_settled[OF c s, of example_lib busy_hour Absent example_body
      "[(Pickle (Some 99), PostPredict example_body), (Absent, GetStatus),
        (Unreadable ValueError, PostPredict example_body), (Pickle (Some 99), GetStatus)]"]
  have "cached (interleave example_lib busy_hour loaded_server) = Some 10"
    and "load_calls (interleave example_lib busy_hour loaded_server) = load_calls loaded_server"
    and "serve example_lib (Some 10)
        [(Pickle (Some 99), PostPredict example_body), (Absent, GetStatus),
         (Unreadable ValueError, PostPredict example_body), (Pickle (Some 99), GetStatus)]
     = ([(Led 10, 200), (Text ''not_ready'', 404), (Led 10, 200), (Text ''ready'', 200)],
        Some 10, 0)"
    unfolding h by simp_all
  with c s r show ?thesis
    by (simp add: loaded_server_def)
qed

section \<open>The training pipeline\<close>

subsection \<open>Helper lemmas\<close>

lemma validate_filter: "validate df = filter training_sample df"
  unfolding validate_def Let_def training_sample_def
  by (simp add: conj_commute conj_left_commute cong: filter_cong)

text \<open>Rounding to the nearest double.\<close>

lemma round_half_even_near: "0 \<le> d \<Longrightarrow> d < 1/2 \<Longrightarrow> round_half_even (of_int z + d) = z"
proof -
  assume a: "0 \<le> d" "d < 1/2"
  then have f: "\<lfloor>of_int z + d\<rfloor> = z" by linarith
  show ?thesis unfolding round_half_even_def Let_def f using a by simp
qed

lemma round_half_even_error: "\<bar>of_int (round_half_even y) - y\<bar> \<le> 1/2"
  unfolding round_half_even_def Let_def by (auto; linarith)

lemma two_powr: "(2::real) powr (of_int k) = 2 powi k"
  by (rule powr_real_of_int') simp_all

lemma two_powr_Suc: "(2::real) powr (of_int k + 1) = 2 powi (k + 1)"
  using two_powr[of "k + 1"] by simp

lemma binade:
  assumes "x \<noteq> 0"
  shows "2 powi \<lfloor>log 2 \<bar>x\<bar>\<rfloor> \<le> \<bar>x\<bar> \<and> \<bar>x\<bar> < 2 powi (\<lfloor>log 2 \<bar>x\<bar>\<rfloor> + 1)"
proof -
  have p: "0 < \<bar>x\<bar>" using assms by simp
  from floor_log_eq_powr_iff[OF p, of 2 "\<lfloor>log 2 \<bar>x\<bar>\<rfloor>"]
  show ?thesis by (simp add: two_powr two_powr_Suc)
qed

lemma floor_log2_eq:
  assumes "2 powi e \<le> \<bar>x\<bar>" "\<bar>x\<bar> < 2 powi (e + 1)"
  shows "\<lfloor>log 2 \<bar>x\<bar>\<rfloor> = e"
proof -
  have p: "0 < \<bar>x\<bar>" using assms(1) zero_less_power_int[of "2::real" e] by linarith
  from floor_log_eq_powr_iff[OF p, of 2 e] assms show ?thesis
    by (simp add: two_powr two_powr_Suc)
qed

text \<open>The rounding of a number whose binade is known.\<close>

lemma fl_round_at:
  assumes "2 powi e \<le> \<bar>x\<bar>" "\<bar>x\<bar> < 2 powi (e + 1)" "- 1022 \<le> e"
  shows "fl_round x = of_int (round_half_even (x / 2 powi (e - 52))) * 2 powi (e - 52)"
proof -
  have "0 < (2::real) powi e" by simp
  with assms(1) have "0 < \<bar>x\<bar>" by linarith
  then have "x \<noteq> 0" by simp
  have "quantum x = e - 52"
    unfolding quantum_def floor_log2_eq[OF assms(1,2)] using assms(3) by simp
  then show ?thesis using \<open>x \<noteq> 0\<close> by (simp add: fl_round_def)
qed

lemma quantum_normal:
  assumes "2 powi (- 1022) \<le> \<bar>x\<bar>"
  shows "quantum x = \<lfloor>log 2 \<bar>x\<bar>\<rfloor> - 52"
proof -
  have p: "0 < \<bar>x\<bar>" using assms zero_less_power_int[of "2::real" "- 1022"] by linarith
  have "2 powr (of_int (- 1022)) \<le> \<bar>x\<bar>" using assms by (simp only: two_powr)
  then have "of_int (- 1022) \<le> log 2 \<bar>x\<bar>" using p by (simp add: le_log_iff)
  then have "(- 1022 :: int) \<le> \<lfloor>log 2 \<bar>x\<bar>\<rfloor>"
    using le_floor_iff[of "- 1022" "log 2 \<bar>x\<bar>"] by simp
  then have "- 1074 \<le> \<lfloor>log 2 \<bar>x\<bar>\<rfloor> - 52" by linarith
  then show ?thesis unfolding quantum_def by (rule max_absorb1)
qed

text \<open>In the normal range the relative error is at most \<open>2 powi (- 53)\<close>.\<close>

lemma fl_round_error:
  assumes "2 powi (- 1022) \<le> x"
  shows "\<bar>fl_round x - x\<bar> \<le> x / 2 ^ 53"
proof -
  have px: "0 < x" using assms zero_less_power_int[of "2::real" "- 1022"] by linarith
  define k where "k = \<lfloor>log 2 \<bar>x\<bar>\<rfloor>"
  define u where "u = (2::real) powi (k - 52)"
  have u: "0 < u" by (simp add: u_def)
  have q: "quantum x = k - 52" using quantum_normal[of x] assms px by (simp add: k_def)
  have lo: "2 powi k \<le> x" using binade[of x] px by (simp add: k_def)
  have r: "fl_round x = of_int (round_half_even (x / u)) * u"
    using px by (simp add: fl_round_def q u_def)
  have "\<bar>of_int (round_half_even (x / u)) - x / u\<bar> \<le> 1/2" by (rule round_half_even_error)
  then have "\<bar>of_int (round_half_even (x / u)) - x / u\<bar> * u \<le> 1/2 * u"
    using u by (intro mult_right_mono) simp_all
  moreover have "\<bar>of_int (round_half_even (x / u)) - x / u\<bar> * u
      = \<bar>of_int (round_half_even (x / u)) * u - x\<bar>"
  proof -
    have "(of_int (round_half_even (x / u)) - x / u) * u
        = of_int (round_half_even (x / u)) * u - x"
      using u by (simp add: field_simps)
    moreover have "\<bar>of_int (round_half_even (x / u)) - x / u\<bar> * u
        = \<bar>(of_int (round_half_even (x / u)) - x / u) * u\<bar>"
      using u by (simp add: abs_mult)
    ultimately show ?thesis by simp
  qed
  ultimately have e: "\<bar>fl_round x - x\<bar> \<le> u / 2" by (simp add: r)
  have "u = 2 powi k / 2 ^ 52" by (simp add: u_def power_int_diff)
  with lo have "u / 2 \<le> x / 2 ^ 53" by simp
  with e show ?thesis by linarith
qed

text \<open>A number just above a natural number below \<open>2 ^ 53\<close> rounds to it.\<close>

lemma fl_round_near_nat:
  fixes a :: nat and d :: real
  assumes "1 \<le> a" "a < 2 ^ 53" "0 \<le> d" "d * 2 ^ 54 \<le> real a"
  shows "fl_round (real a + d) = real a"
proof -
  obtain K where K: "2 ^ K \<le> a" "a < 2 ^ (K + 1)"
    using ex_power_ivl1[of 2 a] assms(1) by auto
  have "(2::nat) ^ K < 2 ^ 53" using K(1) assms(2) by (rule le_less_trans)
  then have "K < 53" by (rule power_less_imp_less_exp[rotated]) simp
  then have K52: "K \<le> 52" by simp
  define u where "u = (2::real) ^ (52 - K)"
  have u: "0 < u" by (simp add: u_def)
  have uK: "u * 2 ^ (K + 1) = 2 ^ 53"
    unfolding u_def using K52 by (simp add: power_add[symmetric])
  have e: "int K - 52 = - int (52 - K)" using K52 by simp
  have q: "(2::real) powi (int K - 52) = 1 / u"
    unfolding e power_int_minus power_int_of_nat u_def by (simp add: inverse_eq_divide)
  have ra: "real a < 2 ^ 53" using assms(2) by (metis of_nat_less_numeral_power_cancel_iff)
  have d_small: "d < 1/2" using assms(4) ra by simp
  have lo: "2 powi (int K) \<le> \<bar>real a + d\<bar>"
  proof -
    have "(2::real) ^ K \<le> real a"
      using K(1) by (metis of_nat_le_iff of_nat_numeral of_nat_power)
    with assms(3) show ?thesis unfolding power_int_of_nat by linarith
  qed
  have hi: "\<bar>real a + d\<bar> < 2 powi (int K + 1)"
  proof -
    have "a + 1 \<le> 2 ^ (K + 1)" using K(2) by simp
    then have "real (a + 1) \<le> real (2 ^ (K + 1))" by (simp only: of_nat_le_iff)
    then have "real a + 1 \<le> 2 ^ (K + 1)" by simp
    moreover have "(2::real) powi (int K + 1) = 2 ^ (K + 1)"
      using power_int_of_nat[of "2::real" "K + 1"] by (simp add: add.commute)
    ultimately show ?thesis using assms(3) d_small by linarith
  qed
  have r: "fl_round (real a + d)
      = of_int (round_half_even ((real a + d) / 2 powi (int K - 52))) * 2 powi (int K - 52)"
    by (rule fl_round_at[OF lo hi]) simp
  have s: "(real a + d) / 2 powi (int K - 52) = of_int (int (a * 2 ^ (52 - K))) + d * u"
    by (simp add: q u_def algebra_simps)
  have "d * u * 2 ^ 54 \<le> real a * u"
    using assms(4) u by (simp add: mult.commute mult_left_mono)
  moreover have "real a * u < 2 ^ (K + 1) * u"
  proof -
    have "real a < 2 ^ (K + 1)"
      using K(2) by (metis of_nat_less_iff of_nat_numeral of_nat_power)
    with u show ?thesis by simp
  qed
  ultimately have "d * u * 2 ^ 54 < 2 ^ 53" using uK by (simp add: mult.commute)
  then have du: "d * u < 1/2" by simp
  have du0: "0 \<le> d * u" using assms(3) u by simp
  have "round_half_even ((real a + d) / 2 powi (int K - 52)) = int (a * 2 ^ (52 - K))"
    unfolding s by (rule round_half_even_near[OF du0 du])
  then show ?thesis unfolding r q using u by (simp add: u_def)
qed

lemma fl_round_nat: "n < 2 ^ 53 \<Longrightarrow> fl_round (real n) = real n"
proof (cases "n = 0")
  case True
  then show ?thesis by (simp add: fl_round_def)
next
  case False
  assume "n < 2 ^ 53"
  with False fl_round_near_nat[of n 0] show ?thesis by simp
qed

lemma fl_round_tenth: "fl_round (1/10) = 3602879701896397 / 36028797018963968"
  using fl_round_at[of "-4" "1/10"]
  by (simp add: round_half_even_def power_int_minus)

text \<open>
  The product \<open>len(df) * 0.1\<close> in doubles separates the counts as a tenth of the row
  count does.
\<close>

lemma tenth_threshold:
  fixes a n :: nat
  assumes n: "n < 2 ^ 49"
  shows "real a < fl_round (fl_round (real n) * fl_round (1/10)) \<longleftrightarrow> 10 * a < n"
proof (cases "n = 0")
  case True
  then show ?thesis by (simp add: fl_round_def)
next
  case False
  have n53: "n < 2 ^ 53" using n by simp
  have rn: "real n < 2 ^ 49" using n by (metis of_nat_less_numeral_power_cancel_iff)
  define x where "x = real n * (3602879701896397 / 36028797018963968)"
  have fx: "fl_round (real n) * fl_round (1/10) = x"
    by (simp add: fl_round_nat[OF n53] fl_round_tenth x_def)
  have x10: "x = real n / 10 + real n / 10 / 2 ^ 54"
    by (simp add: x_def)
  have n1: "1 \<le> real n" using False by simp
  have "1 / 10 \<le> x" using n1 by (simp add: x10)
  moreover have "(2::real) powi (- 1022) \<le> 1 / 10"
    by (simp add: power_int_minus field_simps)
  ultimately have normal: "2 powi (- 1022) \<le> x" by linarith
  note err = fl_round_error[OF normal]
  consider (lt) "10 * a < n" | (eq) "10 * a = n" | (gt) "n < 10 * a" by linarith
  then show ?thesis
  proof cases
    case lt
    then have "10 * a + 1 \<le> n" by simp
    then have "real (10 * a + 1) \<le> real n" by (simp only: of_nat_le_iff)
    then have an: "10 * real a + 1 \<le> real n" by simp
    have "x - x / 2 ^ 53 \<le> fl_round x" using err by linarith
    moreover have "real a < x - x / 2 ^ 53"
      using an rn unfolding x10 by (simp add: field_simps)
    ultimately have "real a < fl_round x" by linarith
    with lt show ?thesis by (simp add: fx)
  next
    case gt
    then have "n + 1 \<le> 10 * a" by simp
    then have "real (n + 1) \<le> real (10 * a)" by (simp only: of_nat_le_iff)
    then have an: "real n + 1 \<le> 10 * real a" by simp
    have "fl_round x \<le> x + x / 2 ^ 53" using err by linarith
    moreover have "x + x / 2 ^ 53 \<le> real a"
      using an rn unfolding x10 by (simp add: field_simps)
    ultimately have "\<not> real a < fl_round x" by linarith
    with gt show ?thesis by (simp add: fx)
  next
    case eq
    then have a1: "1 \<le> a" using False by simp
    have a53: "a < 2 ^ 53" using eq n53 by simp
    have xa: "x = real a + real a / 2 ^ 54"
      unfolding x10 using eq by (simp flip: eq)
    have "fl_round (real a + real a / 2 ^ 54) = real a"
      by (rule fl_round_near_nat[OF a1 a53]) simp_all
    with eq show ?thesis by (simp add: fx xa)
  qed
qed

lemma map_of_column: "c \<in> set (columns df) \<Longrightarrow> \<exists>cells. map_of df c = Some cells"
  unfolding columns_def by (metis map_of_eq_None_iff not_Some_eq set_map)

lemma select_required_ok:
  assumes "missing_cols df = []"
  shows "\<exists>rows. select_required df = Inr rows"
proof -
  from assms have "''ldr'' \<in> set (columns df)" "''motion'' \<in> set (columns df)"
      "''led'' \<in> set (columns df)"
    by (simp_all add: missing_cols_def required_cols_def split: if_splits)
  then obtain a b c where "map_of df ''ldr'' = Some a" "map_of df ''motion'' = Some b"
      "map_of df ''led'' = Some c"
    using map_of_column by metis
  then show ?thesis by (simp add: select_required_def)
qed

lemma pipeline_table:
  assumes "read_csv e = Table df0" "missing_cols (drop_ts df0) = []"
  shows "pipeline e = after_validation e (validated e df0)"
proof -
  from select_required_ok[OF assms(2)] obtain rows
    where r: "select_required (drop_ts df0) = Inr rows" by blast
  show ?thesis using assms r by (simp add: pipeline_def validated_def Let_def)
qed

lemma train_and_save_cases:
  "train_and_save e df =
     \<lparr>outcome = (if joblib_dump e (fit e (fst (train_test_split e df))) then Ready else Exit1 SaveError),
      trace = [ReadCsv, Split, Fit, Evaluate, Dump],
      artifact = (if joblib_dump e (fit e (fst (train_test_split e df)))
                  then Some (fit e (fst (train_test_split e df))) else None),
      report = Some (evaluate e (fit e (fst (train_test_split e df)))
                 (fst (train_test_split e df)) (snd (train_test_split e df)))\<rparr>"
  by (simp add: train_and_save_def Let_def split: prod.splits)

lemma train_and_save_trace: "trace (train_and_save e df) = [ReadCsv, Split, Fit, Evaluate, Dump]"
  by (simp add: train_and_save_cases)

lemma halt_trace: "trace (halt out) = [ReadCsv]"
  by (simp add: halt_def)

lemma pipeline_too_few:
  assumes "read_csv e = Table df0" "missing_cols (drop_ts df0) = []"
    and "length (validated e df0) < 50"
  shows "pipeline e = halt (Exit1 (TooFewSamples (length (validated e df0))))"
  unfolding pipeline_table[OF assms(1,2)] using assms(3)
  by (simp add: after_validation_def halt_def)

lemma pipeline_proceeds:
  assumes "read_csv e = Table df0" "missing_cols (drop_ts df0) = []"
    and "50 \<le> length (validated e df0)"
  shows "pipeline e = train_and_save e (outlier_stage (quantile e) (validated e df0))"
  unfolding pipeline_table[OF assms(1,2)] using assms(3)
  by (simp add: after_validation_def)

lemma missing_cols_iff:
  "missing_cols df \<noteq> [] \<longleftrightarrow>
     ''ldr'' \<notin> set (columns df) \<or> ''motion'' \<notin> set (columns df) \<or> ''led'' \<notin> set (columns df)"
  by (simp add: missing_cols_def required_cols_def)

lemma set_missing_cols: "set (missing_cols df) = {''ldr'', ''motion'', ''led''} - set (columns df)"
  by (auto simp: missing_cols_def required_cols_def)

lemma columns_filter: "set (columns (filter (\<lambda>c. fst c \<notin> S) df)) = set (columns df) - S"
  unfolding columns_def by auto

lemma columns_drop_ts:
  "set (columns (drop_ts df)) = set (columns df) - {''ts'', ''Unnamed: 0''}"
proof (cases "''ts'' \<in> set (columns df) \<or> ''Unnamed: 0'' \<in> set (columns df)")
  case False
  then show ?thesis by (simp add: drop_ts_def)
next
  case True
  then have "set (columns (drop_ts df))
      = set (columns df) - set [col \<leftarrow> [''ts'', ''Unnamed: 0'']. col \<in> set (columns df)]"
    unfolding drop_ts_def by (simp only: if_True columns_filter)
  also have "\<dots> = set (columns df) - ({''ts'', ''Unnamed: 0''} \<inter> set (columns df))"
    by (simp only: set_filter) auto
  also have "\<dots> = set (columns df) - {''ts'', ''Unnamed: 0''}" by blast
  finally show ?thesis .
qed

lemma required_not_ts:
  "{''ldr'', ''motion'', ''led''} \<inter> {''ts'', ''Unnamed: 0''} = {}"
  by simp

lemma missing_drop_ts:
  "{''ldr'', ''motion'', ''led''} - set (columns (drop_ts df))
     = {''ldr'', ''motion'', ''led''} - set (columns df)"
  unfolding columns_drop_ts using required_not_ts by blast

lemma pipeline_cases:
  "(\<exists>out. pipeline e = halt out \<and> out \<noteq> Ready) \<or>
   (\<exists>df0. read_csv e = Table df0 \<and> missing_cols (drop_ts df0) = []
        \<and> 50 \<le> length (validated e df0)
        \<and> pipeline e = train_and_save e (outlier_stage (quantile e) (validated e df0)))"
proof (cases "read_csv e")
  case FileNotFoundError
  then have "pipeline e = halt (Exit1 CsvNotFound)" by (simp add: pipeline_def)
  then show ?thesis by blast
next
  case (OtherReadError x)
  then have "pipeline e = halt (Exit1 (CsvLoadError x))" by (simp add: pipeline_def)
  then show ?thesis by blast
next
  case (Table df0)
  show ?thesis
  proof (cases "missing_cols (drop_ts df0) = []")
    case False
    with Table have "pipeline e = halt (Exit1 (MissingColumns (missing_cols (drop_ts df0))))"
      by (simp add: pipeline_def Let_def)
    then show ?thesis by blast
  next
    case True
    show ?thesis
    proof (cases "length (validated e df0) < 50")
      case few: True
      from pipeline_too_few[OF Table True few] show ?thesis by blast
    next
      case False
      then have "50 \<le> length (validated e df0)" by simp
      from this pipeline_proceeds[OF Table True this] Table True show ?thesis by blast
    qed
  qed
qed

lemma fit_reached:
  assumes "Fit \<in> set (trace (pipeline e))"
  shows "\<exists>df. pipeline e = train_and_save e df"
  using pipeline_cases[of e] assms by (auto simp: halt_trace)

lemma validated_metrics:
  "validated (e\<lparr>rf_predict := p, mean_absolute_error := f, r2_score := g,
      feature_importances := h\<rparr>) df0 = validated e df0"
  by (simp add: validated_def cong: sum.case_cong)

lemma train_and_save_metrics:
  "without_evaluation (train_and_save
      (e\<lparr>rf_predict := p, mean_absolute_error := f, r2_score := g, feature_importances := h\<rparr>) df)
     = without_evaluation (train_and_save e df)"
  by (simp add: train_and_save_cases without_evaluation_def)

lemma after_validation_metrics:
  "without_evaluation (after_validation
      (e\<lparr>rf_predict := p, mean_absolute_error := f, r2_score := g, feature_importances := h\<rparr>) df)
     = without_evaluation (after_validation e df)"
proof (cases "length df < 50")
  case True
  then show ?thesis by (simp add: after_validation_def without_evaluation_def)
next
  case False
  then show ?thesis
    by (simp add: after_validation_def train_and_save_metrics)
qed

lemma pipeline_metrics:
  "without_evaluation (pipeline
      (e\<lparr>rf_predict := p, mean_absolute_error := f, r2_score := g, feature_importances := h\<rparr>))
     = without_evaluation (pipeline e)"
proof (cases "read_csv e")
  case FileNotFoundError
  then show ?thesis by (simp add: pipeline_def)
next
  case (OtherReadError x)
  then show ?thesis by (simp add: pipeline_def)
next
  case (Table df0)
  show ?thesis
  proof (cases "missing_cols (drop_ts df0) = []")
    case False
    with Table show ?thesis by (simp add: pipeline_def Let_def)
  next
    case True
    have t: "read_csv (e\<lparr>rf_predict := p, mean_absolute_error := f, r2_score := g,
        feature_importances := h\<rparr>) = Table df0"
      using Table by simp
    show ?thesis
      unfolding pipeline_table[OF Table True] pipeline_table[OF t True] validated_metrics
      by (rule after_validation_metrics)
  qed
qed

subsection \<open>The example tables\<close>

lemma keep_first_distinct:
  "distinct xs \<Longrightarrow> set xs \<inter> set seen = {} \<Longrightarrow> keep_first seen xs = xs"
  by (induction xs arbitrary: seen) auto

lemma dropna_numbers:
  "dropna (map (\<lambda>r. (Some (ldr r), Some (motion r), Some (led r))) rs) = rs"
  by (induction rs) simp_all

lemma columns_table_of: "columns (table_of rs) = [''ts'', ''ldr'', ''motion'', ''led'']"
  by (simp add: columns_def table_of_def)

lemma drop_ts_table_of:
  "drop_ts (table_of rs) =
     [(''ldr'', map (\<lambda>r. Num (ldr r)) rs), (''motion'', map (\<lambda>r. Num (motion r)) rs),
      (''led'', map (\<lambda>r. Num (led r)) rs)]"
  unfolding drop_ts_def columns_table_of by (simp add: table_of_def)

lemma missing_cols_table_of: "missing_cols (drop_ts (table_of rs)) = []"
  unfolding drop_ts_table_of by (simp add: missing_cols_def required_cols_def columns_def)

lemma select_table_of:
  "select_required (drop_ts (table_of rs))
     = Inr (map (\<lambda>r. (Num (ldr r), Num (motion r), Num (led r))) rs)"
  unfolding drop_ts_table_of
  by (simp add: select_required_def zip_map1 zip_map2 zip_same_conv_map)

lemma clean_numbers:
  assumes "distinct rs"
  shows "clean parse (map (\<lambda>r. (Num (ldr r), Num (motion r), Num (led r))) rs) = rs"
proof -
  let ?rows = "map (\<lambda>r. (Num (ldr r), Num (motion r), Num (led r))) rs"
  have n: "isnull_sum ?rows = 0"
    by (simp add: isnull_sum_def)
  have m: "map (\<lambda>(a, b, c). (to_numeric parse a, to_numeric parse b, to_numeric parse c)) ?rows
      = map (\<lambda>r. (Some (ldr r), Some (motion r), Some (led r))) rs"
    by simp
  have k: "keep_first [] rs = rs"
    using assms by (simp add: keep_first_distinct)
  have d: "dropna (map (\<lambda>(a, b, c). (to_numeric parse a, to_numeric parse b, to_numeric parse c))
      ?rows) = rs"
    by (simp only: m dropna_numbers)
  have "clean parse ?rows = (if duplicated_sum rs > 0 then drop_duplicates rs else rs)"
    by (simp only: clean_def Let_def n less_irrefl if_False d)
  then show ?thesis
    by (simp add: duplicated_sum_def drop_duplicates_def k)
qed

lemma validated_table_of:
  assumes "distinct rs" "\<forall>r \<in> set rs. training_sample r"
  shows "validated e (table_of rs) = rs"
  unfolding validated_def select_table_of
  using assms by (simp add: clean_numbers validate_filter)

lemma distinct_ramp: "distinct (ramp n)"
  unfolding ramp_def by (simp add: distinct_map inj_on_def)

lemma ramp_valid: "n \<le> 256 \<Longrightarrow> \<forall>r \<in> set (ramp n). training_sample r"
  unfolding ramp_def by (auto simp: training_sample_def)

lemma validated_ramp: "n \<le> 256 \<Longrightarrow> validated e (table_of (ramp n)) = ramp n"
  by (simp add: validated_table_of distinct_ramp ramp_valid)

lemma length_ramp: "length (ramp n) = n"
  by (simp add: ramp_def)

subsection \<open>Claims\<close>

text \<open>
  C1. The validation stage keeps exactly the rows with \<open>0 \<le> ldr \<le> 4095\<close>, \<open>motion\<close> equal
  to 0 or to 1, and \<open>0 \<le> led \<le> 255\<close>: every surviving row satisfies the three
  constraints, every violating row is gone, and the survivors are rows of the input, in
  their order and unchanged.
\<close>

theorem validation_invariant:
  "validate df = filter training_sample df
   \<and> (\<forall>r \<in> set (validate df). r \<in> set df \<and> 0 \<le> ldr r \<and> ldr r \<le> 4095
          \<and> motion r \<in> {0, 1} \<and> 0 \<le> led r \<and> led r \<le> 255)
   \<and> (\<forall>r \<in> set df. \<not> training_sample r \<longrightarrow> r \<notin> set (validate df))
   \<and> subseq (validate df) df"
  by (auto simp: validate_filter training_sample_def)

theorem validation_invariant_witness:
  "validate example_frame
     = [\<lparr>ldr = 100, motion = 1, led = 200\<rparr>, \<lparr>ldr = 4095, motion = 0, led = 0\<rparr>]
   \<and> \<lparr>ldr = 100, motion = 1, led = 200\<rparr> \<in> set example_frame
   \<and> \<lparr>ldr = 300, motion = 0.5, led = 10\<rparr> \<in> set example_frame
   \<and> \<not> training_sample \<lparr>ldr = 300, motion = 0.5, led = 10\<rparr>
   \<and> \<lparr>ldr = 300, motion = 0.5, led = 10\<rparr> \<notin> set (validate example_frame)"
  using validation_invariant[of example_frame]
  by (simp add: example_frame_def training_sample_def)

text \<open>
  C2. For a table that passed the schema guard: with fewer than 50 rows after validation
  the run ends in \<open>sys.exit(1)\<close> with the count as diagnostic, having gone through no split
  and no fit and written nothing; with 50 rows or more it goes on to the outlier stage,
  the split and the fit. 49 rows abort, 50 proceed.
\<close>

theorem abort_below_50:
  assumes "read_csv e = Table df0" "missing_cols (drop_ts df0) = []"
  shows "(length (validated e df0) < 50 \<longrightarrow>
            pipeline e = \<lparr>outcome = Exit1 (TooFewSamples (length (validated e df0))),
                          trace = [ReadCsv], artifact = None, report = None\<rparr>)
       \<and> (50 \<le> length (validated e df0) \<longrightarrow>
            pipeline e = train_and_save e (outlier_stage (quantile e) (validated e df0))
            \<and> Split \<in> set (trace (pipeline e)) \<and> Fit \<in> set (trace (pipeline e)))"
proof (intro conjI impI)
  assume "length (validated e df0) < 50"
  from pipeline_too_few[OF assms this]
  show "pipeline e = \<lparr>outcome = Exit1 (TooFewSamples (length (validated e df0))),
                          trace = [ReadCsv], artifact = None, report = None\<rparr>"
    by (simp add: halt_def)
next
  assume "50 \<le> length (validated e df0)"
  from pipeline_proceeds[OF assms this]
  show p: "pipeline e = train_and_save e (outlier_stage (quantile e) (validated e df0))" .
  show "Split \<in> set (trace (pipeline e))" "Fit \<in> set (trace (pipeline e))"
    unfolding p by (simp_all add: train_and_save_trace)
qed

theorem abort_below_50_witness:
  "length (validated (example_env (Table (table_of (ramp 49))) True) (table_of (ramp 49))) = 49
   \<and> pipeline (example_env (Table (table_of (ramp 49))) True)
       = \<lparr>outcome = Exit1 (TooFewSamples 49), trace = [ReadCsv], artifact = None, report = None\<rparr>
   \<and> length (validated (example_env (Table (table_of (ramp 50))) True) (table_of (ramp 50))) = 50
   \<and> Split \<in> set (trace (pipeline (example_env (Table (table_of (ramp 50))) True)))
   \<and> Fit \<in> set (trace (pipeline (example_env (Table (table_of (ramp 50))) True)))"
proof -
  have r: "read_csv (example_env (Table (table_of (ramp n))) True) = Table (table_of (ramp n))"
    for n by (simp add: example_env_def)
  show ?thesis
    using abort_below_50[OF r[of 49] missing_cols_table_of]
      abort_below_50[OF r[of 50] missing_cols_table_of]
    by (simp add: validated_ramp length_ramp train_and_save_trace)
qed

text \<open>The example frames of the outlier stage.\<close>

lemma led_labelled: "map led (labelled xs) = xs"
  by (simp add: labelled_def comp_def)

lemma quantile_sorted:
  "sorted xs \<Longrightarrow> xs \<noteq> [] \<Longrightarrow> quantile_linear xs q =
     (let h = real (length xs - 1) * q; i = nat \<lfloor>h\<rfloor>; j = min (i + 1) (length xs - 1)
      in xs ! i + (h - real i) * (xs ! j - xs ! i))"
  by (simp add: quantile_linear_def sorted_sort_id)

lemma six_tenths_bounds: "0 < six_tenths" "six_tenths < 3/2"
  by (simp_all add: six_tenths_def)

lemma skewed_leds: "map led skewed = replicate 14 0 @ replicate 38 six_tenths @ [3/2]"
  by (simp add: skewed_def led_labelled)

lemma length_skewed: "length skewed = 53"
  by (simp add: skewed_def labelled_def)

lemma skewed_quartiles:
  "quantile_linear (map led skewed) (1/4) = 0"
  "quantile_linear (map led skewed) (3/4) = six_tenths"
  unfolding skewed_leds using six_tenths_bounds
  by (simp_all add: quantile_sorted sorted_append nth_append Let_def)

lemma skewed_iqr: "fl_sub six_tenths 0 = six_tenths"
  unfolding fl_sub_def six_tenths_def
  using fl_round_at[of "-1" "5404319552844595 / 9007199254740992"]
  by (simp add: round_half_even_def power_int_minus)

lemma skewed_spread: "fl_mul (3/2) six_tenths = below_nine_tenths"
  unfolding fl_mul_def six_tenths_def below_nine_tenths_def
  using fl_round_at[of "-1" "3/2 * (5404319552844595 / 9007199254740992)"]
  by (simp add: round_half_even_def power_int_minus)

lemma skewed_low: "fl_sub 0 below_nine_tenths = - below_nine_tenths"
  unfolding fl_sub_def below_nine_tenths_def
  using fl_round_at[of "-1" "0 - 8106479329266892 / 9007199254740992"]
  by (simp add: round_half_even_def power_int_minus)

lemma skewed_high: "fl_add six_tenths below_nine_tenths = 3/2"
  unfolding fl_add_def six_tenths_def below_nine_tenths_def
  using fl_round_at[of 0
      "5404319552844595 / 9007199254740992 + 8106479329266892 / 9007199254740992"]
  by (simp add: round_half_even_def power_int_minus)

text \<open>In exact arithmetic the upper bound would be below the largest label.\<close>

lemma skewed_exact_high: "six_tenths + 3/2 * (six_tenths - 0) < 3/2"
  by (simp add: six_tenths_def)

lemma skewed_outliers: "outliers_of quantile_linear skewed = []"
  unfolding outliers_of_def Let_def skewed_quartiles skewed_iqr skewed_spread skewed_low
    skewed_high
  using six_tenths_bounds by (simp add: skewed_def labelled_def below_nine_tenths_def)

lemma far_outliers:
  "outliers_of quantile_linear (labelled [10, 20, 30, 40, 50, 60, 70, 80, 90, 100, 1000])
     = labelled [1000]"
proof -
  have q: "quantile_linear [10, 20, 30, 40, 50, 60, 70, 80, 90, 100, 1000] (1/4) = 35"
    "quantile_linear [10, 20, 30, 40, 50, 60, 70, 80, 90, 100, 1000] (3/4) = 85"
    by (simp_all add: quantile_linear_def Let_def)
  have i: "fl_sub 85 35 = 50"
    unfolding fl_sub_def using fl_round_at[of 5 "85 - 35"]
    by (simp add: round_half_even_def power_int_minus)
  have m: "fl_mul (3/2) 50 = 75"
    unfolding fl_mul_def using fl_round_at[of 6 "3/2 * 50"]
    by (simp add: round_half_even_def power_int_minus)
  have l: "fl_sub 35 75 = - 40"
    unfolding fl_sub_def using fl_round_at[of 5 "35 - 75"]
    by (simp add: round_half_even_def power_int_minus)
  have h: "fl_add 85 75 = 160"
    unfolding fl_add_def using fl_round_at[of 7 "85 + 75"]
    by (simp add: round_half_even_def power_int_minus)
  show ?thesis
    unfolding outliers_of_def Let_def led_labelled q i m l h
    by (simp add: labelled_def)
qed

lemma few_rows_outliers:
  "outliers_of quantile_linear (labelled [10, 20, 30, 40, 50, 60, 70, 80, 90, 1000])
     = labelled [1000]"
proof -
  have q: "quantile_linear [10, 20, 30, 40, 50, 60, 70, 80, 90, 1000] (1/4) = 65/2"
    "quantile_linear [10, 20, 30, 40, 50, 60, 70, 80, 90, 1000] (3/4) = 155/2"
    by (simp_all add: quantile_linear_def Let_def)
  have i: "fl_sub (155/2) (65/2) = 45"
    unfolding fl_sub_def using fl_round_at[of 5 "155/2 - 65/2"]
    by (simp add: round_half_even_def power_int_minus)
  have m: "fl_mul (3/2) 45 = 135/2"
    unfolding fl_mul_def using fl_round_at[of 6 "3/2 * 45"]
    by (simp add: round_half_even_def power_int_minus)
  have l: "fl_sub (65/2) (135/2) = - 35"
    unfolding fl_sub_def using fl_round_at[of 5 "65/2 - 135/2"]
    by (simp add: round_half_even_def power_int_minus)
  have h: "fl_add (155/2) (135/2) = 145"
    unfolding fl_add_def using fl_round_at[of 7 "155/2 + 135/2"]
    by (simp add: round_half_even_def power_int_minus)
  show ?thesis
    unfolding outliers_of_def Let_def led_labelled q i m l h
    by (simp add: labelled_def)
qed

text \<open>
  C3. With Q1 and Q3 the quartiles of the \<open>led\<close> column, IQR = Q3 - Q1, and the outliers
  the rows whose \<open>led\<close> is strictly below Q1 - 1.5 IQR or strictly above Q3 + 1.5 IQR,
  these computed in doubles as the script does: the stage removes the outliers if and
  only if there is at least one and ten times their number is less than the number of
  rows; otherwise it returns the frame as it is. The frame has fewer than \<open>2 ^ 49\<close> rows.
\<close>

theorem outlier_stage_policy:
  assumes "length df < 2 ^ 49"
  shows "outlier_stage q df =
     (if outliers_of q df \<noteq> [] \<and> 10 * length (outliers_of q df) < length df
      then [r \<leftarrow> df. r \<notin> set (outliers_of q df)] else df)"
proof -
  define low where
    "low = fl_sub (q (map led df) (1/4))
       (fl_mul (3/2) (fl_sub (q (map led df) (3/4)) (q (map led df) (1/4))))"
  define high where
    "high = fl_add (q (map led df) (3/4))
       (fl_mul (3/2) (fl_sub (q (map led df) (3/4)) (q (map led df) (1/4))))"
  have o: "outliers_of q df = [r \<leftarrow> df. led r < low \<or> high < led r]"
    by (simp add: outliers_of_def Let_def low_def high_def)
  have keep: "[r \<leftarrow> df. r \<notin> set (outliers_of q df)] = [r \<leftarrow> df. led r \<ge> low \<and> led r \<le> high]"
    unfolding o by (rule filter_cong) auto
  have t: "real a < fl_mul (fl_round (real (length df))) (fl_round 0.1) \<longleftrightarrow> 10 * a < length df"
    for a using tenth_threshold[OF assms, of a] by (simp add: fl_mul_def)
  have s: "outlier_stage q df =
     (if length (outliers_of q df) > 0
         \<and> real (length (outliers_of q df)) < fl_mul (fl_round (real (length df))) (fl_round 0.1)
      then [r \<leftarrow> df. led r \<ge> low \<and> led r \<le> high] else df)"
    unfolding o by (simp add: outlier_stage_def Let_def low_def high_def)
  show ?thesis unfolding s keep t by simp
qed

theorem outlier_stage_policy_witness:
  "outlier_stage quantile_linear (labelled [10, 20, 30, 40, 50, 60, 70, 80, 90, 100, 1000])
     = labelled [10, 20, 30, 40, 50, 60, 70, 80, 90, 100]
   \<and> outlier_stage quantile_linear (labelled [10, 20, 30, 40, 50, 60, 70, 80, 90, 1000])
     = labelled [10, 20, 30, 40, 50, 60, 70, 80, 90, 1000]
   \<and> length skewed = 53 \<and> outlier_stage quantile_linear skewed = skewed"
proof -
  have n: "length (labelled [10, 20, 30, 40, 50, 60, 70, 80, 90, 100, 1000]) < 2 ^ 49"
    "length (labelled [10, 20, 30, 40, 50, 60, 70, 80, 90, 1000]) < 2 ^ 49"
    "length skewed < 2 ^ 49"
    by (simp_all add: labelled_def length_skewed)
  show ?thesis
    using outlier_stage_policy[OF n(1), of quantile_linear]
      outlier_stage_policy[OF n(2), of quantile_linear]
      outlier_stage_policy[OF n(3), of quantile_linear]
    unfolding far_outliers few_rows_outliers skewed_outliers
    by (simp add: labelled_def length_skewed)
qed

text \<open>
  C7. When the CSV file is absent the run ends in \<open>sys.exit(1)\<close> with the diagnostic for
  the missing file. When the table, after the timestamp and index columns are dropped,
  lacks one of \<open>ldr\<close>, \<open>motion\<close>, \<open>led\<close>, the run ends in \<open>sys.exit(1)\<close> with the missing
  names as diagnostic, and these are the required names the table read does not have. In
  both cases the file was read once and nothing else was done.
\<close>

theorem loader_fails_fast:
  "(read_csv e = FileNotFoundError \<longrightarrow>
      pipeline e = \<lparr>outcome = Exit1 CsvNotFound, trace = [ReadCsv], artifact = None, report = None\<rparr>)
   \<and> (read_csv e = Table df0 \<and>
       (''ldr'' \<notin> set (columns (drop_ts df0)) \<or> ''motion'' \<notin> set (columns (drop_ts df0))
          \<or> ''led'' \<notin> set (columns (drop_ts df0))) \<longrightarrow>
      pipeline e = \<lparr>outcome = Exit1 (MissingColumns (missing_cols (drop_ts df0))),
                     trace = [ReadCsv], artifact = None, report = None\<rparr>
      \<and> missing_cols (drop_ts df0) \<noteq> []
      \<and> set (missing_cols (drop_ts df0)) = {''ldr'', ''motion'', ''led''} - set (columns df0))"
proof (intro conjI impI)
  assume "read_csv e = FileNotFoundError"
  then show "pipeline e
      = \<lparr>outcome = Exit1 CsvNotFound, trace = [ReadCsv], artifact = None, report = None\<rparr>"
    by (simp add: pipeline_def halt_def)
next
  assume a: "read_csv e = Table df0 \<and>
       (''ldr'' \<notin> set (columns (drop_ts df0)) \<or> ''motion'' \<notin> set (columns (drop_ts df0))
          \<or> ''led'' \<notin> set (columns (drop_ts df0)))"
  then show m: "missing_cols (drop_ts df0) \<noteq> []" by (simp only: missing_cols_iff)
  from a m show "pipeline e = \<lparr>outcome = Exit1 (MissingColumns (missing_cols (drop_ts df0))),
                     trace = [ReadCsv], artifact = None, report = None\<rparr>"
    by (simp add: pipeline_def halt_def Let_def)
next
  show "set (missing_cols (drop_ts df0)) = {''ldr'', ''motion'', ''led''} - set (columns df0)"
    by (simp only: set_missing_cols missing_drop_ts)
qed

theorem loader_fails_fast_witness:
  "pipeline (example_env FileNotFoundError True)
     = \<lparr>outcome = Exit1 CsvNotFound, trace = [ReadCsv], artifact = None, report = None\<rparr>
   \<and> pipeline (example_env (Table [(''ts'', [Num 1]), (''ldr'', [Num 7]), (''motion'', [Num 0])]) True)
     = \<lparr>outcome = Exit1 (MissingColumns [''led'']), trace = [ReadCsv], artifact = None,
        report = None\<rparr>"
proof -
  let ?t = "[(''ts'', [Num 1]), (''ldr'', [Num 7]), (''motion'', [Num 0])]"
  have d: "drop_ts ?t = [(''ldr'', [Num 7]), (''motion'', [Num 0])]"
    by (simp add: drop_ts_def columns_def)
  have c: "columns (drop_ts ?t) = [''ldr'', ''motion'']"
    unfolding d by (simp add: columns_def)
  have m: "missing_cols (drop_ts ?t) = [''led'']"
    unfolding missing_cols_def c by (simp add: required_cols_def)
  show ?thesis
    using loader_fails_fast[of "example_env FileNotFoundError True"]
      loader_fails_fast[of "example_env (Table ?t) True" ?t]
    unfolding m c
    by (simp add: example_env_def)
qed

text \<open>
  C8. A run that reaches the fit goes through the evaluation and then to \<open>joblib.dump\<close>
  with the fitted model: it ends ready with that model as artifact when the write
  succeeds, and in \<open>sys.exit(1)\<close> when the write fails. Replacing the model's predictions
  and the metric functions changes neither the outcome, nor the trace, nor the artifact
  of any run. A table that passed the schema guard ends ready, in the save error, or in
  the sample count diagnostic, the last exactly when fewer than 50 rows were valid.
\<close>

theorem evaluation_never_gates:
  "(Fit \<in> set (trace (pipeline e)) \<longrightarrow>
      Dump \<in> set (trace (pipeline e))
      \<and> (\<exists>df. pipeline e = train_and_save e df
            \<and> (joblib_dump e (fit e (fst (train_test_split e df))) \<longrightarrow>
                 outcome (pipeline e) = Ready
                 \<and> artifact (pipeline e) = Some (fit e (fst (train_test_split e df))))
            \<and> (\<not> joblib_dump e (fit e (fst (train_test_split e df))) \<longrightarrow>
                 outcome (pipeline e) = Exit1 SaveError \<and> artifact (pipeline e) = None)))
   \<and> without_evaluation (pipeline (e\<lparr>rf_predict := p, mean_absolute_error := f,
         r2_score := g, feature_importances := h\<rparr>)) = without_evaluation (pipeline e)
   \<and> (read_csv e = Table df0 \<and> missing_cols (drop_ts df0) = [] \<longrightarrow>
        (outcome (pipeline e) = Ready \<or> outcome (pipeline e) = Exit1 SaveError
           \<or> outcome (pipeline e) = Exit1 (TooFewSamples (length (validated e df0))))
        \<and> (outcome (pipeline e) = Exit1 (TooFewSamples (length (validated e df0)))
             \<longleftrightarrow> length (validated e df0) < 50))"
proof (intro conjI impI)
  assume a: "Fit \<in> set (trace (pipeline e))"
  from fit_reached[OF a] obtain df where p: "pipeline e = train_and_save e df" by blast
  show "Dump \<in> set (trace (pipeline e))"
    unfolding p by (simp add: train_and_save_trace)
  show "\<exists>df. pipeline e = train_and_save e df
            \<and> (joblib_dump e (fit e (fst (train_test_split e df))) \<longrightarrow>
                 outcome (pipeline e) = Ready
                 \<and> artifact (pipeline e) = Some (fit e (fst (train_test_split e df))))
            \<and> (\<not> joblib_dump e (fit e (fst (train_test_split e df))) \<longrightarrow>
                 outcome (pipeline e) = Exit1 SaveError \<and> artifact (pipeline e) = None)"
  proof (intro exI conjI)
    show "pipeline e = train_and_save e df" by (rule p)
  qed (simp_all add: p train_and_save_cases)
next
  show "without_evaluation (pipeline (e\<lparr>rf_predict := p, mean_absolute_error := f,
         r2_score := g, feature_importances := h\<rparr>)) = without_evaluation (pipeline e)"
    by (rule pipeline_metrics)
next
  assume a: "read_csv e = Table df0 \<and> missing_cols (drop_ts df0) = []"
  then have t: "read_csv e = Table df0" and m: "missing_cols (drop_ts df0) = []" by simp_all
  have c: "(length (validated e df0) < 50
              \<and> outcome (pipeline e) = Exit1 (TooFewSamples (length (validated e df0))))
         \<or> (\<not> length (validated e df0) < 50
              \<and> (outcome (pipeline e) = Ready \<or> outcome (pipeline e) = Exit1 SaveError))"
  proof (cases "length (validated e df0) < 50")
    case True
    from pipeline_too_few[OF t m True] True show ?thesis by (simp add: halt_def)
  next
    case False
    then have "50 \<le> length (validated e df0)" by simp
    from pipeline_proceeds[OF t m this] False show ?thesis
      by (simp add: train_and_save_cases)
  qed
  from c show "outcome (pipeline e) = Ready \<or> outcome (pipeline e) = Exit1 SaveError
           \<or> outcome (pipeline e) = Exit1 (TooFewSamples (length (validated e df0)))"
    by blast
  from c show "outcome (pipeline e) = Exit1 (TooFewSamples (length (validated e df0)))
             \<longleftrightarrow> length (validated e df0) < 50"
    by auto
qed

theorem evaluation_never_gates_witness:
  "Fit \<in> set (trace (pipeline (example_env (Table (table_of (ramp 50))) True)))
   \<and> Dump \<in> set (trace (pipeline (example_env (Table (table_of (ramp 50))) True)))
   \<and> outcome (pipeline (example_env (Table (table_of (ramp 50))) True)) = Ready
   \<and> outcome (pipeline (example_env (Table (table_of (ramp 50))) False)) = Exit1 SaveError
   \<and> without_evaluation (pipeline ((example_env (Table (table_of (ramp 50))) True)
        \<lparr>rf_predict := (\<lambda>m x y. 0), mean_absolute_error := (\<lambda>ys ps. 1000),
          r2_score := (\<lambda>ys ps. - 5), feature_importances := (\<lambda>m. (0, 0))\<rparr>))
     = without_evaluation (pipeline (example_env (Table (table_of (ramp 50))) True))
   \<and> outcome (pipeline (example_env (Table (table_of (ramp 49))) True))
     = Exit1 (TooFewSamples 49)"
proof -
  have r: "read_csv (example_env (Table (table_of (ramp n))) w) = Table (table_of (ramp n))"
    for n w by (simp add: example_env_def)
  have v: "50 \<le> length (validated (example_env (Table (table_of (ramp 50))) w)
      (table_of (ramp 50)))" for w
    by (simp add: validated_ramp length_ramp)
  have fit: "Fit \<in> set (trace (pipeline (example_env (Table (table_of (ramp 50))) w)))" for w
    unfolding pipeline_proceeds[OF r missing_cols_table_of v]
    by (simp add: train_and_save_trace)
  have d: "joblib_dump (example_env csv w) m = w" for csv w m
    by (simp add: example_env_def)
  let ?yes = "example_env (Table (table_of (ramp 50))) True"
  let ?no = "example_env (Table (table_of (ramp 50))) False"
  let ?few = "example_env (Table (table_of (ramp 49))) True"
  note yes = evaluation_never_gates[where e = ?yes and p = "\<lambda>m x y. 0"
      and f = "\<lambda>ys ps. 1000" and g = "\<lambda>ys ps. - 5" and h = "\<lambda>m. (0, 0)"]
  note no = evaluation_never_gates[where e = ?no]
  note few = evaluation_never_gates[where e = ?few and ?df0.0 = "table_of (ramp 49)"]
  from yes fit[of True] have 1: "Dump \<in> set (trace (pipeline ?yes))"
    by blast
  from yes fit[of True] obtain df where
    "joblib_dump ?yes (fit ?yes (fst (train_test_split ?yes df))) \<longrightarrow>
       outcome (pipeline ?yes) = Ready"
    by blast
  then have 2: "outcome (pipeline ?yes) = Ready"
    unfolding d by simp
  from no fit[of False] obtain df' where
    "\<not> joblib_dump ?no (fit ?no (fst (train_test_split ?no df'))) \<longrightarrow>
       outcome (pipeline ?no) = Exit1 SaveError"
    by blast
  then have 3: "outcome (pipeline ?no) = Exit1 SaveError"
    unfolding d by simp
  from yes have 4: "without_evaluation (pipeline (?yes
        \<lparr>rf_predict := (\<lambda>m x y. 0), mean_absolute_error := (\<lambda>ys ps. 1000),
          r2_score := (\<lambda>ys ps. - 5), feature_importances := (\<lambda>m. (0, 0))\<rparr>))
     = without_evaluation (pipeline ?yes)"
    by blast
  from few r[of 49 True] missing_cols_table_of[of "ramp 49"]
  have "outcome (pipeline ?few) = Exit1 (TooFewSamples (length (validated ?few (table_of (ramp 49)))))
      \<longleftrightarrow> length (validated ?few (table_of (ramp 49))) < 50"
    by blast
  then have 5: "outcome (pipeline ?few) = Exit1 (TooFewSamples 49)"
    by (simp add: validated_ramp length_ramp)
  from fit[of True] 1 2 3 4 5 show ?thesis
    by blast
qed

end
